theory Spec2Isabelle
  imports Complex_Main "HOL-Library.Product_Lexorder" "HOL-Library.Multiset"
begin

section \<open>Errors and values\<close>

text \<open>
  The exceptions of \<^verbatim>\<open>yard/data.py\<close> that the model distinguishes. Every \<^verbatim>\<open>raise\<close>
  and every failing built-in operation of the source is a branch returning one of them.
\<close>

datatype error =
    ValueError string
  | ZeroDivisionError
  | AttributeError string
  | TypeError
  | IndexError

section \<open>BinaryConfusionMatrix\<close>

text \<open>
  The class has \<^verbatim>\<open>__slots__ = ("tp", "fp", "tn", "fn")\<close>: an instance is exactly four
  Python integers (unbounded, so \<^typ>\<open>int\<close>).
\<close>

record matrix =
  tp :: int
  fp :: int
  tn :: int
  fn :: int

text \<open>
  What may be passed as the \<^verbatim>\<open>data\<close> argument: \<^verbatim>\<open>None\<close>, a nested list of
  integers, or another confusion matrix.
\<close>

datatype data_arg =
    NoData
  | Grid "int list list"
  | Matrix matrix

text \<open>The \<^verbatim>\<open>data\<close> property: \<^verbatim>\<open>[[self.tn, self.fn], [self.fp, self.tp]]\<close>.\<close>

definition get_data :: "matrix \<Rightarrow> int list list" where
  "get_data self = [[tn self, fn self], [fp self, tp self]]"

text \<open>
  The body of the \<^verbatim>\<open>data\<close> setter on a nested list. It returns the exception raised (if
  any) together with the state of \<^verbatim>\<open>self\<close> at that moment. The two length checks come
  first; the tuple assignment
  \<^verbatim>\<open>(self.tn, self.fn), (self.fp, self.tp) = data\<close> unpacks and assigns row by row, so
  a failure in the second row would leave the first row assigned.
\<close>

definition set_grid :: "matrix \<Rightarrow> int list list \<Rightarrow> error option \<times> matrix" where
  "set_grid self g =
     (if length g \<noteq> 2 then (Some (ValueError ''confusion matrix must have 2 rows''), self)
      else if list_ex (\<lambda>row. length row \<noteq> 2) g
        then (Some (ValueError ''confusion matrix must have 2 columns''), self)
      else (case g of
              [r0, r1] \<Rightarrow>
                (case r0 of
                   [a, b] \<Rightarrow>
                     (let self1 = self\<lparr>tn := a, fn := b\<rparr> in
                      case r1 of
                        [c, d] \<Rightarrow> (None, self1\<lparr>fp := c, tp := d\<rparr>)
                      | _ \<Rightarrow> (Some (ValueError ''unpack''), self1))
                 | _ \<Rightarrow> (Some (ValueError ''unpack''), self))
            | _ \<Rightarrow> (Some (ValueError ''unpack''), self)))"

text \<open>
  The \<^verbatim>\<open>data\<close> setter. A \<^verbatim>\<open>BinaryConfusionMatrix\<close> argument is replaced by its grid
  and the setter is entered again; \<^verbatim>\<open>len(None)\<close> is a type error.
\<close>

fun set_data :: "matrix \<Rightarrow> data_arg \<Rightarrow> error option \<times> matrix" where
  "set_data self (Matrix other) = set_grid self (get_data other)"
| "set_data self (Grid g) = set_grid self g"
| "set_data self NoData = (Some TypeError, self)"

text \<open>Python truth value of the \<^verbatim>\<open>data\<close> argument, as tested by \<^verbatim>\<open>if data:\<close>. The
  class defines neither \<^verbatim>\<open>__nonzero__\<close> nor \<^verbatim>\<open>__len__\<close>, so an instance is true.\<close>

fun truthy :: "data_arg \<Rightarrow> bool" where
  "truthy NoData = False"
| "truthy (Grid g) = (g \<noteq> [])"
| "truthy (Matrix m) = True"

text \<open>
  \<^verbatim>\<open>__init__(self, data=None, tp=0, fp=0, fn=0, tn=0)\<close>. An exception leaving the
  constructor means that no object is returned.
\<close>

definition BinaryConfusionMatrix_init ::
    "data_arg \<Rightarrow> int \<Rightarrow> int \<Rightarrow> int \<Rightarrow> int \<Rightarrow> error + matrix" where
  "BinaryConfusionMatrix_init d tp0 fp0 fn0 tn0 =
     (let self = \<lparr>tp = tp0, fp = fp0, tn = tn0, fn = fn0\<rparr> in
      if truthy d then
        (case set_data self d of
           (Some e, _) \<Rightarrow> Inl e
         | (None, self') \<Rightarrow> Inr self')
      else Inr self)"

text \<open>\<^verbatim>\<open>BinaryConfusionMatrix(data=d)\<close> with the keyword counts at their default 0.\<close>

definition BinaryConfusionMatrix :: "data_arg \<Rightarrow> error + matrix" where
  "BinaryConfusionMatrix d = BinaryConfusionMatrix_init d 0 0 0 0"

subsection \<open>Metrics\<close>

text \<open>
  \<^verbatim>\<open>x / float(y)\<close> on integers: Python raises \<^verbatim>\<open>ZeroDivisionError\<close> when the divisor
  is zero. Floats are idealised as reals (the conversion of an integer and the quotient are
  taken exactly).
\<close>

definition float_div :: "int \<Rightarrow> int \<Rightarrow> error + real" where
  "float_div x y = (if y = 0 then Inl ZeroDivisionError else Inr (real_of_int x / real_of_int y))"

text \<open>\<^verbatim>\<open>return self.fp / float(self.fp + self.tp)\<close>\<close>

definition fdr :: "matrix \<Rightarrow> error + real" where
  "fdr self = float_div (fp self) (fp self + tp self)"

text \<open>\<^verbatim>\<open>return self.fp / float(self.fp + self.tn)\<close>\<close>

definition fpr :: "matrix \<Rightarrow> error + real" where
  "fpr self = float_div (fp self) (fp self + tn self)"

text \<open>
  \<^verbatim>\<open>try: return self.tp / float(self.tp + self.fp)
  except ZeroDivisionError: return 1.0\<close>
\<close>

definition precision :: "matrix \<Rightarrow> error + real" where
  "precision self =
     (case float_div (tp self) (tp self + fp self) of
        Inl ZeroDivisionError \<Rightarrow> Inr 1
      | Inl e \<Rightarrow> Inl e
      | Inr v \<Rightarrow> Inr v)"

text \<open>\<^verbatim>\<open>return self.tp / float(self.tp + self.fn)\<close>\<close>

definition recall :: "matrix \<Rightarrow> error + real" where
  "recall self = float_div (tp self) (tp self + fn self)"

subsection \<open>Attribute access and indexing\<close>

text \<open>
  The values an attribute of an instance can evaluate to: an integer slot, the grid built
  by the \<^verbatim>\<open>data\<close> property, or a bound method (named).
\<close>

datatype pyval = IntV int | GridV "int list list" | MethodV string

text \<open>The methods and aliases defined in the class body (the property \<^verbatim>\<open>data\<close> apart).\<close>

definition method_names :: "string list" where
  "method_names =
     [''__init__'', ''accuracy'', ''fdn'', ''fdp'', ''fdr'', ''fpr'', ''f_score'', ''mcc'',
      ''npv'', ''odds_ratio'', ''precision'', ''recall'', ''tnr'', ''__eq__'',
      ''__getitem__'', ''__repr__'', ''__setitem__'', ''ppv'', ''sensitivity'',
      ''specificity'', ''tpr'']"

text \<open>
  Attribute lookup \<^verbatim>\<open>self.name\<close>. Because of \<^verbatim>\<open>__slots__\<close> an instance has no
  \<^verbatim>\<open>__dict__\<close>: a name is a slot, the property, something defined in the class body,
  or the lookup raises \<^verbatim>\<open>AttributeError\<close>.
\<close>

definition getattr :: "matrix \<Rightarrow> string \<Rightarrow> error + pyval" where
  "getattr self name =
     (if name = ''tp'' then Inr (IntV (tp self))
      else if name = ''fp'' then Inr (IntV (fp self))
      else if name = ''tn'' then Inr (IntV (tn self))
      else if name = ''fn'' then Inr (IntV (fn self))
      else if name = ''data'' then Inr (GridV (get_data self))
      else if name \<in> set method_names then Inr (MethodV name)
      else Inl (AttributeError name))"

text \<open>
  Subscription \<^verbatim>\<open>xs[i]\<close> of a list by an integer. An index from \<open>- len\<close> up to
  \<open>- 1\<close> addresses from the end; one outside \<open>- len .. len - 1\<close> raises
  \<^verbatim>\<open>IndexError\<close>.
\<close>

definition list_get :: "'a list \<Rightarrow> int \<Rightarrow> error + 'a" where
  "list_get xs i =
     (if i < - int (length xs) \<or> int (length xs) \<le> i then Inl IndexError
      else if i < 0 then Inr (xs ! nat (i + int (length xs)))
      else Inr (xs ! nat i))"

text \<open>
  \<^verbatim>\<open>def __getitem__(self, coords):
      obs, exp = coords
      return self._data[obs][exp]\<close>
  with \<^verbatim>\<open>coords\<close> a pair of integers.
\<close>

definition getitem :: "matrix \<Rightarrow> int \<times> int \<Rightarrow> error + int" where
  "getitem self coords =
     (case coords of (obs, expd) \<Rightarrow>
        (case getattr self ''_data'' of
           Inl e \<Rightarrow> Inl e
         | Inr (GridV g) \<Rightarrow>
             (case list_get g obs of
                Inl e \<Rightarrow> Inl e
              | Inr row \<Rightarrow> list_get row expd)
         | Inr _ \<Rightarrow> Inl TypeError))"

text \<open>
  \<^verbatim>\<open>def __setitem__(self, coords, value):
      obs, exp = coords
      self._data[obs][exp] = value\<close>
  The result is the exception raised (if any) and the state of \<^verbatim>\<open>self\<close>. The store
  goes into the list that \<^verbatim>\<open>self._data\<close> evaluates to, never into a slot.
\<close>

definition setitem :: "matrix \<Rightarrow> int \<times> int \<Rightarrow> int \<Rightarrow> error option \<times> matrix" where
  "setitem self coords v =
     (case coords of (obs, expd) \<Rightarrow>
        (case getattr self ''_data'' of
           Inl e \<Rightarrow> (Some e, self)
         | Inr (GridV g) \<Rightarrow>
             (case list_get g obs of
                Inl e \<Rightarrow> (Some e, self)
              | Inr row \<Rightarrow>
                  (case list_get row expd of
                     Inl e \<Rightarrow> (Some e, self)
                   | Inr _ \<Rightarrow> (None, self)))
         | Inr _ \<Rightarrow> (Some TypeError, self)))"

section \<open>Scores and thresholds\<close>

text \<open>
  A score of the dataset is a real number. A threshold is a real number or the value
  \<^verbatim>\<open>float('inf')\<close> that the sweep appends, which is greater than every real.
  Floats are idealised: comparison and division are those of the reals, and there is no
  NaN.
\<close>

datatype threshold = Fin real | PInf

instantiation threshold :: linorder
begin

fun less_eq_threshold :: "threshold \<Rightarrow> threshold \<Rightarrow> bool" where
  "less_eq_threshold (Fin a) (Fin b) = (a \<le> b)"
| "less_eq_threshold (Fin a) PInf = True"
| "less_eq_threshold PInf (Fin b) = False"
| "less_eq_threshold PInf PInf = True"

definition less_threshold :: "threshold \<Rightarrow> threshold \<Rightarrow> bool" where
  "less_threshold x y = (x \<le> y \<and> \<not> y \<le> x)"

instance
proof
  fix x y z :: threshold
  show "(x < y) = (x \<le> y \<and> \<not> y \<le> x)"
    by (simp add: less_threshold_def)
  show "x \<le> x"
    by (cases x) simp_all
  show "x \<le> y \<Longrightarrow> y \<le> z \<Longrightarrow> x \<le> z"
    by (cases x; cases y; cases z) simp_all
  show "x \<le> y \<Longrightarrow> y \<le> x \<Longrightarrow> x = y"
    by (cases x; cases y) simp_all
  show "x \<le> y \<or> y \<le> x"
    by (cases x; cases y) auto
qed

end

section \<open>BinaryClassifierData\<close>

text \<open>
  The instance attributes the sweep uses: the sorted list of normalised points and the two
  totals. (The title plays no part in the computation and is left out.)
\<close>

record dataset =
  data :: "(real \<times> bool) list"
  total_positives :: int
  total_negatives :: int

text \<open>\<^verbatim>\<open>return point[0], point[1] > 0\<close>, for a raw label that is a number
  (\<^verbatim>\<open>False\<close> is 0 and \<^verbatim>\<open>True\<close> is 1).\<close>

definition normalize_point :: "real \<times> int \<Rightarrow> real \<times> bool" where
  "normalize_point point = (fst point, snd point > 0)"

text \<open>
  \<^verbatim>\<open>__init__\<close> on a list of raw points (a sequence that can be iterated twice, as
  the constructor does; the branch that takes over the points of another
  \<^verbatim>\<open>BinaryClassifierData\<close> produces the same three attributes):
  \<^verbatim>\<open>self.data = sorted(self._normalize_point(point) for point in data)
  self.total_positives = sum(point[1] > 0 for point in data)
  self.total_negatives = len(self.data) - self.total_positives\<close>
  Tuples are sorted lexicographically, \<^verbatim>\<open>False\<close> before \<^verbatim>\<open>True\<close>.
\<close>

definition BinaryClassifierData :: "(real \<times> int) list \<Rightarrow> dataset" where
  "BinaryClassifierData pts =
     (let d = sort (map normalize_point pts);
          pos = sum_list (map (\<lambda>point. if snd point > 0 then 1 else 0) pts)
      in \<lparr>data = d, total_positives = pos, total_negatives = int (length d) - pos\<rparr>)"

text \<open>\<^verbatim>\<open>__len__\<close>\<close>

definition len :: "dataset \<Rightarrow> nat" where
  "len self = length (data self)"

subsection \<open>Binary search\<close>

text \<open>
  \<^verbatim>\<open>bisect.bisect_left(a, x)\<close> of the Python standard library:
  \<^verbatim>\<open>lo, hi = 0, len(a)
  while lo < hi:
      mid = (lo + hi) // 2
      if a[mid] < x: lo = mid + 1
      else: hi = mid
  return lo\<close>
  The index \<open>mid\<close> is below \<open>hi\<close>, hence inside the list.
\<close>

function bisect_loop :: "'a::linorder list \<Rightarrow> 'a \<Rightarrow> nat \<Rightarrow> nat \<Rightarrow> nat" where
  "bisect_loop a x lo hi =
     (if lo < hi then
        (if a ! ((lo + hi) div 2) < x
         then bisect_loop a x ((lo + hi) div 2 + 1) hi
         else bisect_loop a x lo ((lo + hi) div 2))
      else lo)"
  by pat_completeness auto
termination
  by (relation "measure (\<lambda>(a, x, lo, hi). hi - lo)") auto

declare bisect_loop.simps [simp del]

definition bisect_left :: "'a::linorder list \<Rightarrow> 'a \<Rightarrow> nat" where
  "bisect_left a x = bisect_loop a x 0 (length a)"

text \<open>A point of the dataset as the tuple that is compared with \<^verbatim>\<open>(threshold, False)\<close>.\<close>

definition as_key :: "real \<times> bool \<Rightarrow> threshold \<times> bool" where
  "as_key point = (Fin (fst point), snd point)"

subsection \<open>The matrix at one threshold\<close>

text \<open>\<^verbatim>\<open>result[r][is_pos] += 1\<close>: a Boolean index is 0 or 1.\<close>

definition bump :: "nat \<Rightarrow> real \<times> bool \<Rightarrow> int list list \<Rightarrow> int list list" where
  "bump r point result =
     (let c = (if snd point then 1 else 0) in
      result[r := (result ! r)[c := result ! r ! c + 1]])"

text \<open>\<^verbatim>\<open>result[r][c] = v\<close>\<close>

definition put :: "nat \<Rightarrow> nat \<Rightarrow> int \<Rightarrow> int list list \<Rightarrow> int list list" where
  "put r c v result = result[r := (result ! r)[c := v]]"

text \<open>
  \<^verbatim>\<open>get_confusion_matrix(self, threshold)\<close>. The source is Python 2:
  \<^verbatim>\<open>len(self.data) / 2\<close> is integer division.
\<close>

definition get_confusion_matrix :: "dataset \<Rightarrow> threshold \<Rightarrow> error + matrix" where
  "get_confusion_matrix self threshold =
     (let result = [[0, 0], [0, 0]];
          idx = bisect_left (map as_key (data self)) (threshold, False)
      in if idx \<le> length (data self) div 2 then
           (let result = fold (bump 0) (take idx (data self)) result;
                result = put 1 0 (total_negatives self - result ! 0 ! 0) result;
                result = put 1 1 (total_positives self - result ! 0 ! 1) result
            in BinaryConfusionMatrix (Grid result))
         else
           (let result = fold (bump 1) (drop idx (data self)) result;
                result = put 0 0 (total_negatives self - result ! 1 ! 0) result;
                result = put 0 1 (total_positives self - result ! 1 ! 1) result
            in BinaryConfusionMatrix (Grid result)))"

subsection \<open>The sweep\<close>

text \<open>The \<^verbatim>\<open>thresholds\<close> argument: \<^verbatim>\<open>None\<close>, an integer, or a collection.\<close>

datatype thresholds_arg =
    NoThresholds
  | Count int
  | Thresholds "threshold list"

text \<open>
  \<^verbatim>\<open>if thresholds is None:
      thresholds = [pred for pred, _ in self.data]
  elif not hasattr(thresholds, "__iter__"):
      n = float(thresholds)
      thresholds = [i/n for i in xrange(thresholds)]
  thresholds = sorted(set(thresholds))\<close>
  The last line is outside the conditional and therefore applies to all three cases.
\<close>

definition resolve_thresholds :: "dataset \<Rightarrow> thresholds_arg \<Rightarrow> threshold list" where
  "resolve_thresholds self arg =
     (let thresholds =
        (case arg of
           NoThresholds \<Rightarrow> map (\<lambda>(pred, _). Fin pred) (data self)
         | Count k \<Rightarrow> map (\<lambda>i. Fin (real_of_int i / real_of_int k)) [0..k - 1]
         | Thresholds ts \<Rightarrow> ts)
      in sort (remdups thresholds))"

text \<open>
  The inner \<^verbatim>\<open>while row_idx < n\<close> loop for one threshold, on the value of the running
  matrix; it returns the cursor and the matrix when the loop is left.
\<close>

function sweep_rows ::
    "(real \<times> bool) list \<Rightarrow> threshold \<Rightarrow> nat \<Rightarrow> matrix \<Rightarrow> nat \<times> matrix" where
  "sweep_rows d threshold row_idx result =
     (if row_idx < length d then
        (if Fin (fst (d ! row_idx)) \<ge> threshold then (row_idx, result)
         else if snd (d ! row_idx)
           then sweep_rows d threshold (row_idx + 1)
                  (result\<lparr>tp := tp result - 1, fn := fn result + 1\<rparr>)
           else sweep_rows d threshold (row_idx + 1)
                  (result\<lparr>tn := tn result + 1, fp := fp result - 1\<rparr>))
      else (row_idx, result))"
  by pat_completeness auto
termination
  by (relation "measure (\<lambda>(d, threshold, row_idx, result). length d - row_idx)") auto

declare sweep_rows.simps [simp del]

text \<open>
  The \<^verbatim>\<open>for threshold in thresholds\<close> loop. The generator's trace is the list of pairs
  yielded, each with the value its matrix has at the moment of the yield, and the exception
  that ended the generator, if any. Every pair of this loop is
  \<^verbatim>\<open>threshold, BinaryConfusionMatrix(result)\<close>.
\<close>

fun sweep ::
    "dataset \<Rightarrow> threshold list \<Rightarrow> nat \<Rightarrow> matrix \<Rightarrow> (threshold \<times> matrix) list \<times> error option" where
  "sweep self [] row_idx result = ([], None)"
| "sweep self (threshold # thresholds) row_idx result =
     (case sweep_rows (data self) threshold row_idx result of
        (row_idx', result') \<Rightarrow>
          (case BinaryConfusionMatrix (Matrix result') of
             Inl e \<Rightarrow> ([], Some e)
           | Inr snapshot \<Rightarrow>
               (case sweep self thresholds row_idx' result' of
                  (ys, err) \<Rightarrow> ((threshold, snapshot) # ys, err))))"

text \<open>\<^verbatim>\<open>iter_confusion_matrices(self, thresholds=None)\<close>, as the trace of the generator.\<close>

definition iter_confusion_matrices ::
    "dataset \<Rightarrow> thresholds_arg \<Rightarrow> (threshold \<times> matrix) list \<times> error option" where
  "iter_confusion_matrices self arg =
     (if len self = 0 then ([], None)
      else
        (let thresholds = resolve_thresholds self arg in
         if thresholds = [] then ([], None)
         else
           (case thresholds @ [PInf] of
              [] \<Rightarrow> ([], Some IndexError)
            | threshold # thresholds \<Rightarrow>
                (case get_confusion_matrix self threshold of
                   Inl e \<Rightarrow> ([], Some e)
                 | Inr result \<Rightarrow>
                     (case sweep self thresholds 0 result of
                        (ys, err) \<Rightarrow> ((threshold, result) # ys, err))))))"

subsection \<open>The sweep on a store of objects\<close>

text \<open>
  To see which yielded matrices are the same object, instances live in a store: a
  reference is a position in the list of all instances created so far, and creating an
  instance appends it.
\<close>

type_synonym ref = nat
type_synonym store = "matrix list"

definition alloc :: "store \<Rightarrow> matrix \<Rightarrow> ref \<times> store" where
  "alloc h m = (length h, h @ [m])"

text \<open>
  A yield is recorded as the threshold, the reference yielded, and the store at that
  moment. The inner loop assigns to attributes of the one object \<^verbatim>\<open>result\<close>, so it is
  \<^const>\<open>sweep_rows\<close> on the content of that reference, written back.
\<close>

fun sweep_st ::
    "dataset \<Rightarrow> threshold list \<Rightarrow> nat \<Rightarrow> ref \<Rightarrow> store \<Rightarrow>
     (threshold \<times> ref \<times> store) list \<times> error option" where
  "sweep_st self [] row_idx result h = ([], None)"
| "sweep_st self (threshold # thresholds) row_idx result h =
     (case sweep_rows (data self) threshold row_idx (h ! result) of
        (row_idx', m) \<Rightarrow>
          (let h1 = h[result := m] in
           case BinaryConfusionMatrix (Matrix (h1 ! result)) of
             Inl e \<Rightarrow> ([], Some e)
           | Inr snapshot \<Rightarrow>
               (case alloc h1 snapshot of
                  (r, h2) \<Rightarrow>
                    (case sweep_st self thresholds row_idx' result h2 of
                       (ys, err) \<Rightarrow> ((threshold, r, h2) # ys, err)))))"

definition iter_confusion_matrices_st ::
    "dataset \<Rightarrow> thresholds_arg \<Rightarrow> store \<Rightarrow> (threshold \<times> ref \<times> store) list \<times> error option" where
  "iter_confusion_matrices_st self arg h =
     (if len self = 0 then ([], None)
      else
        (let thresholds = resolve_thresholds self arg in
         if thresholds = [] then ([], None)
         else
           (case thresholds @ [PInf] of
              [] \<Rightarrow> ([], Some IndexError)
            | threshold # thresholds \<Rightarrow>
                (case get_confusion_matrix self threshold of
                   Inl e \<Rightarrow> ([], Some e)
                 | Inr m \<Rightarrow>
                     (case alloc h m of
                        (result, h1) \<Rightarrow>
                          (case sweep_st self thresholds 0 result h1 of
                             (ys, err) \<Rightarrow> ((threshold, result, h1) # ys, err)))))))"

text \<open>The store once the generator is exhausted: the store of its last yield.\<close>

definition final_store :: "(threshold \<times> ref \<times> store) list \<Rightarrow> store" where
  "final_store ys = snd (snd (last ys))"

section \<open>Counting points\<close>

text \<open>The number of elements of a list that satisfy a predicate, as a Python integer.\<close>

definition count_if :: "('a \<Rightarrow> bool) \<Rightarrow> 'a list \<Rightarrow> int" where
  "count_if P xs = int (length (filter P xs))"

text \<open>
  The matrix in the words of the specification, on the raw points \<open>(score, label)\<close>: a
  point is positive-labelled when its label is greater than zero, and it is classified
  positive at threshold \<open>t\<close> when its score is at least \<open>t\<close>.
\<close>

definition expected_matrix :: "(real \<times> int) list \<Rightarrow> threshold \<Rightarrow> matrix" where
  "expected_matrix pts t =
     \<lparr>tp = count_if (\<lambda>p. snd p > 0 \<and> t \<le> Fin (fst p)) pts,
      fp = count_if (\<lambda>p. \<not> snd p > 0 \<and> t \<le> Fin (fst p)) pts,
      tn = count_if (\<lambda>p. \<not> snd p > 0 \<and> Fin (fst p) < t) pts,
      fn = count_if (\<lambda>p. snd p > 0 \<and> Fin (fst p) < t) pts\<rparr>"

text \<open>The same tally on normalised points; a point is below \<open>t\<close> when its score is.\<close>

definition below :: "threshold \<Rightarrow> real \<times> bool \<Rightarrow> bool" where
  "below t point = (Fin (fst point) < t)"

definition tally :: "(real \<times> bool) list \<Rightarrow> threshold \<Rightarrow> matrix" where
  "tally d t =
     \<lparr>tp = count_if (\<lambda>p. snd p \<and> \<not> below t p) d,
      fp = count_if (\<lambda>p. \<not> snd p \<and> \<not> below t p) d,
      tn = count_if (\<lambda>p. \<not> snd p \<and> below t p) d,
      fn = count_if (\<lambda>p. snd p \<and> below t p) d\<rparr>"

text \<open>
  What the constructor establishes: the points are sorted and the two totals count the
  positive and the negative points.
\<close>

definition consistent :: "dataset \<Rightarrow> bool" where
  "consistent self =
     (sorted (data self)
      \<and> total_positives self = count_if snd (data self)
      \<and> total_negatives self = count_if (\<lambda>p. \<not> snd p) (data self))"

text \<open>The dataset of the docstring of \<^verbatim>\<open>get_confusion_matrix\<close>.\<close>

definition example_points :: "(real \<times> int) list" where
  "example_points =
     [(0.1, 0), (0.2, 0), (0.3, 0), (0.4, 1), (0.5, 0), (0.6, 1), (0.7, 1), (0.8, 1), (0.9, 1)]"

text \<open>
  The effect of the inner loop on the running matrix when it passes a list of rows: a
  positive row is one true positive less and one false negative more, a negative row one
  true negative more and one false positive less.
\<close>

definition moved :: "(real \<times> bool) list \<Rightarrow> matrix \<Rightarrow> matrix" where
  "moved rows m =
     \<lparr>tp = tp m - count_if snd rows,
      fp = fp m - count_if (\<lambda>p. \<not> snd p) rows,
      tn = tn m + count_if (\<lambda>p. \<not> snd p) rows,
      fn = fn m + count_if snd rows\<rparr>"

text \<open>The number of points a matrix accounts for: \<open>tp + fp + tn + fn\<close>.\<close>

definition total :: "matrix \<Rightarrow> int" where
  "total m = tp m + fp m + tn m + fn m"

text \<open>
  The order between two yielded pairs: the threshold does not decrease, tp does not
  increase and tn does not decrease.
\<close>

definition later :: "threshold \<times> matrix \<Rightarrow> threshold \<times> matrix \<Rightarrow> bool" where
  "later a b = (fst a \<le> fst b \<and> tp (snd b) \<le> tp (snd a) \<and> tn (snd a) \<le> tn (snd b))"

text \<open>
  What a consumer reads from a recorded yield at the moment it happens: the threshold and
  the content of the yielded reference in the store of that moment.
\<close>

definition at_yield :: "threshold \<times> ref \<times> store \<Rightarrow> threshold \<times> matrix" where
  "at_yield y = (fst y, snd (snd y) ! fst (snd y))"

text \<open>
  A later yield \<open>b\<close> has kept the object of an earlier yield \<open>a\<close> when that object has, in
  the store of \<open>b\<close>, the content it had in the store of \<open>a\<close>.
\<close>

definition kept :: "threshold \<times> ref \<times> store \<Rightarrow> threshold \<times> ref \<times> store \<Rightarrow> bool" where
  "kept a b = (snd (snd b) ! fst (snd a) = snd (snd a) ! fst (snd a))"

section \<open>Properties of the confusion matrix\<close>

lemma set_grid_2x2:
  "set_grid self [[a, b], [c, d]] = (None, self\<lparr>tn := a, fn := b, fp := c, tp := d\<rparr>)"
  by (simp add: set_grid_def)

lemma BinaryConfusionMatrix_grid:
  "BinaryConfusionMatrix (Grid [[a, b], [c, d]]) = Inr \<lparr>tp = d, fp = c, tn = a, fn = b\<rparr>"
  by (simp add: BinaryConfusionMatrix_def BinaryConfusionMatrix_init_def set_grid_2x2)

lemma BinaryConfusionMatrix_copy: "BinaryConfusionMatrix (Matrix m) = Inr m"
  by (simp add: BinaryConfusionMatrix_def BinaryConfusionMatrix_init_def get_data_def set_grid_2x2)

lemma length_2_iff: "length xs = 2 \<longleftrightarrow> (\<exists>a b. xs = [a, b])"
  by (cases xs; cases "tl xs"; cases "tl (tl xs)") auto

lemma set_grid_fails_iff:
  "fst (set_grid self g) \<noteq> None \<longleftrightarrow> \<not> (length g = 2 \<and> list_all (\<lambda>row. length row = 2) g)"
proof (cases "length g = 2 \<and> list_all (\<lambda>row. length row = 2) g")
  case True
  then obtain a b c d where "g = [[a, b], [c, d]]"
    by (auto simp: length_2_iff)
  then show ?thesis by (simp add: set_grid_2x2)
next
  case False
  then show ?thesis
    by (auto simp: set_grid_def list_ex_iff list_all_iff)
qed

lemma set_grid_no_partial_state:
  "fst (set_grid self g) \<noteq> None \<Longrightarrow> snd (set_grid self g) = self"
proof (cases "length g = 2 \<and> list_all (\<lambda>row. length row = 2) g")
  case True
  assume "fst (set_grid self g) \<noteq> None"
  with True show ?thesis by (metis set_grid_fails_iff)
next
  case False
  then show ?thesis
    by (auto simp: set_grid_def list_ex_iff list_all_iff)
qed

text \<open>
  C8, as the code has it. Construction from a grid fails exactly when the grid is non-empty
  and not two rows of two columns each: an empty grid is false under \<^verbatim>\<open>if data:\<close>, the
  setter is never entered and the counts keep the keyword values. A grid
  \<open>[[tn, fn], [fp, tp]]\<close> sets the four counts. When the setter raises, the
  instance it was called on still has the counts it had before.
\<close>

theorem grid_construction:
  "((\<exists>e. BinaryConfusionMatrix_init (Grid g) tp0 fp0 fn0 tn0 = Inl e) \<longleftrightarrow>
      g \<noteq> [] \<and> \<not> (length g = 2 \<and> list_all (\<lambda>row. length row = 2) g))
   \<and> BinaryConfusionMatrix_init (Grid []) tp0 fp0 fn0 tn0
       = Inr \<lparr>tp = tp0, fp = fp0, tn = tn0, fn = fn0\<rparr>
   \<and> BinaryConfusionMatrix_init (Grid [[a, b], [c, d]]) tp0 fp0 fn0 tn0
       = Inr \<lparr>tp = d, fp = c, tn = a, fn = b\<rparr>
   \<and> (fst (set_grid self g) \<noteq> None \<longrightarrow> snd (set_grid self g) = self)"
proof -
  let ?self = "\<lparr>tp = tp0, fp = fp0, tn = tn0, fn = fn0\<rparr>"
  have "(\<exists>e. BinaryConfusionMatrix_init (Grid g) tp0 fp0 fn0 tn0 = Inl e) \<longleftrightarrow>
        g \<noteq> [] \<and> fst (set_grid ?self g) \<noteq> None"
    by (cases "set_grid ?self g")
      (auto simp: BinaryConfusionMatrix_init_def Let_def split: option.splits)
  then have 1: "(\<exists>e. BinaryConfusionMatrix_init (Grid g) tp0 fp0 fn0 tn0 = Inl e) \<longleftrightarrow>
      g \<noteq> [] \<and> \<not> (length g = 2 \<and> list_all (\<lambda>row. length row = 2) g)"
    by (simp only: set_grid_fails_iff)
  have 2: "BinaryConfusionMatrix_init (Grid []) tp0 fp0 fn0 tn0 = Inr ?self"
    by (simp add: BinaryConfusionMatrix_init_def)
  have 3: "BinaryConfusionMatrix_init (Grid [[a, b], [c, d]]) tp0 fp0 fn0 tn0
       = Inr \<lparr>tp = d, fp = c, tn = a, fn = b\<rparr>"
    by (simp add: BinaryConfusionMatrix_init_def set_grid_2x2)
  have 4: "fst (set_grid self g) \<noteq> None \<longrightarrow> snd (set_grid self g) = self"
    using set_grid_no_partial_state by blast
  from 1 2 3 4 show ?thesis by blast
qed

text \<open>
  C8 at the grid \<open>[[1, 2], [3]]\<close>, whose second row is short: construction fails, and
  the setter leaves an instance with counts 9 as it was; the grid \<open>[[1, 2], [3, 4]]\<close>
  gives tn = 1, fn = 2, fp = 3, tp = 4.
\<close>

theorem grid_construction_witness:
  "(\<exists>e. BinaryConfusionMatrix_init (Grid [[1, 2], [3]]) 0 0 0 0 = Inl e)
   \<and> BinaryConfusionMatrix_init (Grid [[1, 2], [3, 4]]) 0 0 0 0
       = Inr \<lparr>tp = 4, fp = 3, tn = 1, fn = 2\<rparr>
   \<and> fst (set_grid \<lparr>tp = 9, fp = 9, tn = 9, fn = 9\<rparr> [[1, 2], [3]]) \<noteq> None
   \<and> snd (set_grid \<lparr>tp = 9, fp = 9, tn = 9, fn = 9\<rparr> [[1, 2], [3]])
       = \<lparr>tp = 9, fp = 9, tn = 9, fn = 9\<rparr>"
  using grid_construction [of "[[1, 2], [3]]" 0 0 0 0 1 2 3 4 "\<lparr>tp = 9, fp = 9, tn = 9, fn = 9\<rparr>"]
  by (simp add: set_grid_def)

text \<open>
  C8 as stated fails at the empty grid: it is not two rows of two columns, yet the
  constructor returns a matrix (all counts at their default 0) instead of failing.
\<close>

theorem empty_grid_counterexample:
  "\<not> (length ([] :: int list list) = 2 \<and> list_all (\<lambda>row. length row = 2) ([] :: int list list))
   \<and> BinaryConfusionMatrix_init (Grid []) 0 0 0 0 = Inr \<lparr>tp = 0, fp = 0, tn = 0, fn = 0\<rparr>"
  by (simp add: BinaryConfusionMatrix_init_def)

text \<open>
  C6. On a matrix with tp = 0 and fp = 0, \<^verbatim>\<open>precision()\<close> returns exactly 1.0 and
  \<^verbatim>\<open>fdr()\<close> raises \<^verbatim>\<open>ZeroDivisionError\<close>.
\<close>

theorem precision_default_fdr_error:
  "tp m = 0 \<Longrightarrow> fp m = 0 \<Longrightarrow> precision m = Inr 1 \<and> fdr m = Inl ZeroDivisionError"
  by (simp add: precision_def fdr_def float_div_def)

text \<open>C6 at the all-negative matrix tp = 0, fp = 0, tn = 4, fn = 5.\<close>

theorem precision_default_fdr_error_witness:
  "tp \<lparr>tp = 0, fp = 0, tn = 4, fn = 5\<rparr> = 0 \<and> fp \<lparr>tp = 0, fp = 0, tn = 4, fn = 5\<rparr> = 0
   \<and> precision \<lparr>tp = 0, fp = 0, tn = 4, fn = 5\<rparr> = Inr 1
   \<and> fdr \<lparr>tp = 0, fp = 0, tn = 4, fn = 5\<rparr> = Inl ZeroDivisionError"
  using precision_default_fdr_error [of "\<lparr>tp = 0, fp = 0, tn = 4, fn = 5\<rparr>"]
  by simp

text \<open>
  C10. For every matrix and every pair of coordinates, reading \<^verbatim>\<open>m[obs, exp]\<close> and
  writing \<^verbatim>\<open>m[obs, exp] = v\<close> both raise \<^verbatim>\<open>AttributeError\<close> for the name
  \<^verbatim>\<open>_data\<close>, which is neither a slot nor defined in the class; the write leaves the
  matrix unchanged.
\<close>

theorem indexing_raises_AttributeError:
  "getitem m (obs, expd) = Inl (AttributeError ''_data'')
   \<and> setitem m (obs, expd) v = (Some (AttributeError ''_data''), m)"
  by (simp add: getitem_def setitem_def getattr_def method_names_def)

section \<open>The matrix at one threshold is the tally\<close>

lemma count_if_Nil [simp]: "count_if P [] = 0"
  by (simp add: count_if_def)

lemma count_if_Cons [simp]: "count_if P (x # xs) = (if P x then 1 else 0) + count_if P xs"
  by (simp add: count_if_def)

lemma count_if_append [simp]: "count_if P (xs @ ys) = count_if P xs + count_if P ys"
  by (simp add: count_if_def)

lemma count_if_split:
  "count_if P xs = count_if (\<lambda>x. P x \<and> Q x) xs + count_if (\<lambda>x. P x \<and> \<not> Q x) xs"
  by (induction xs) auto

lemma count_if_compl: "count_if P xs + count_if (\<lambda>x. \<not> P x) xs = int (length xs)"
  by (induction xs) auto

lemma count_if_filter: "count_if P (filter Q xs) = count_if (\<lambda>x. Q x \<and> P x) xs"
  by (induction xs) auto

lemma count_if_map: "count_if P (map f xs) = count_if (\<lambda>x. P (f x)) xs"
  by (induction xs) auto

lemma count_if_sort: "count_if P (sort xs) = count_if P xs"
proof -
  have "mset (filter P (sort xs)) = mset (filter P xs)"
    by simp
  then have "length (filter P (sort xs)) = length (filter P xs)"
    by (rule mset_eq_length)
  then show ?thesis
    by (simp add: count_if_def)
qed

lemma fold_bump_0:
  "fold (bump 0) xs [[a, b], [c, d]]
   = [[a + count_if (\<lambda>p. \<not> snd p) xs, b + count_if snd xs], [c, d]]"
  by (induction xs arbitrary: a b) (auto simp: bump_def)

lemma fold_bump_1 [simp]:
  "fold (bump (Suc 0)) xs [[a, b], [c, d]]
   = [[a, b], [c + count_if (\<lambda>p. \<not> snd p) xs, d + count_if snd xs]]"
  by (induction xs arbitrary: c d) (auto simp: bump_def)

text \<open>Binary search on a sorted list returns the number of elements below the key.\<close>

lemma bisect_loop_sorted:
  "sorted a \<Longrightarrow> lo \<le> hi \<Longrightarrow> hi \<le> length a
   \<Longrightarrow> \<forall>i<lo. a ! i < x \<Longrightarrow> \<forall>i. hi \<le> i \<and> i < length a \<longrightarrow> \<not> a ! i < x
   \<Longrightarrow> bisect_loop a x lo hi = length (filter (\<lambda>y. y < x) a)"
proof (induction a x lo hi rule: bisect_loop.induct)
  case (1 a x lo hi)
  let ?mid = "(lo + hi) div 2"
  show ?case
  proof (cases "lo < hi")
    case False
    with "1.prems" have eq: "lo = hi" by simp
    have "filter (\<lambda>y. y < x) (take lo a) = take lo a"
      using "1.prems" by (auto simp: filter_id_conv in_set_conv_nth)
    moreover have "filter (\<lambda>y. y < x) (drop lo a) = []"
      using "1.prems" eq by (auto simp: filter_empty_conv in_set_conv_nth)
    ultimately have "filter (\<lambda>y. y < x) (take lo a @ drop lo a) = take lo a"
      by (simp only: filter_append append_Nil2)
    then have "length (filter (\<lambda>y. y < x) a) = lo"
      using "1.prems" eq by simp
    with False show ?thesis
      by (simp add: bisect_loop.simps [of a x lo hi])
  next
    case True
    then have mid: "lo \<le> ?mid" "?mid < hi" by auto
    show ?thesis
    proof (cases "a ! ?mid < x")
      case lt: True
      have "\<forall>i<?mid + 1. a ! i < x"
      proof (intro allI impI)
        fix i assume "i < ?mid + 1"
        then have "a ! i \<le> a ! ?mid"
          using "1.prems" mid by (auto intro!: sorted_nth_mono)
        with lt show "a ! i < x" by simp
      qed
      with "1.IH"(1) [OF True lt] "1.prems" mid
      have "bisect_loop a x (?mid + 1) hi = length (filter (\<lambda>y. y < x) a)"
        by simp
      with True lt show ?thesis
        by (simp add: bisect_loop.simps [of a x lo hi])
    next
      case ge: False
      have "\<forall>i. ?mid \<le> i \<and> i < length a \<longrightarrow> \<not> a ! i < x"
      proof (intro allI impI)
        fix i assume "?mid \<le> i \<and> i < length a"
        then have "a ! ?mid \<le> a ! i"
          using "1.prems" by (auto intro!: sorted_nth_mono)
        with ge show "\<not> a ! i < x" by simp
      qed
      with "1.IH"(2) [OF True ge] "1.prems" mid
      have "bisect_loop a x lo ?mid = length (filter (\<lambda>y. y < x) a)"
        by simp
      with True ge show ?thesis
        by (simp add: bisect_loop.simps [of a x lo hi])
    qed
  qed
qed

lemma bisect_left_sorted:
  "sorted a \<Longrightarrow> bisect_left a x = length (filter (\<lambda>y. y < x) a)"
  unfolding bisect_left_def by (rule bisect_loop_sorted) auto

text \<open>In a sorted list the elements below a bound form a prefix.\<close>

lemma sorted_filter_prefix:
  fixes xs :: "'a::linorder list"
  assumes "sorted xs" and "\<And>x y. x \<le> y \<Longrightarrow> P y \<Longrightarrow> P x"
  shows "xs = filter P xs @ filter (\<lambda>x. \<not> P x) xs"
  using assms(1)
proof (induction xs)
  case Nil
  show ?case by simp
next
  case (Cons x xs)
  show ?case
  proof (cases "P x")
    case True
    with Cons show ?thesis by simp
  next
    case False
    have "\<forall>y\<in>set xs. \<not> P y"
      using Cons.prems False assms(2) by auto
    then have "filter P xs = []" "filter (\<lambda>x. \<not> P x) xs = xs"
      by (simp_all add: filter_empty_conv filter_id_conv)
    with False show ?thesis by simp
  qed
qed

lemma sorted_take_filter:
  fixes xs :: "'a::linorder list"
  assumes "sorted xs" and "\<And>x y. x \<le> y \<Longrightarrow> P y \<Longrightarrow> P x"
  shows "take (length (filter P xs)) xs = filter P xs"
    and "drop (length (filter P xs)) xs = filter (\<lambda>x. \<not> P x) xs"
proof -
  have eq: "xs = filter P xs @ filter (\<lambda>x. \<not> P x) xs"
    using assms by (rule sorted_filter_prefix)
  show "take (length (filter P xs)) xs = filter P xs"
    by (subst (2) eq) simp
  show "drop (length (filter P xs)) xs = filter (\<lambda>x. \<not> P x) xs"
    by (subst (2) eq) simp
qed

lemma below_mono: "p \<le> q \<Longrightarrow> below t q \<Longrightarrow> below t p"
  for p q :: "real \<times> bool"
  by (cases p; cases q; cases t) (auto simp: below_def less_eq_prod_def less_threshold_def)

lemma as_key_less: "as_key p < (t, False) \<longleftrightarrow> below t p"
  by (cases p) (auto simp: as_key_def below_def less_prod_def)

lemma as_key_mono: "p \<le> q \<Longrightarrow> as_key p \<le> as_key q"
  by (cases p; cases q) (auto simp: as_key_def less_eq_prod_def less_threshold_def)

lemma sorted_map_as_key: "sorted d \<Longrightarrow> sorted (map as_key d)"
  by (induction d) (auto simp: as_key_mono)

lemma bisect_left_data:
  "sorted d \<Longrightarrow> bisect_left (map as_key d) (t, False) = length (filter (below t) d)"
  by (simp add: bisect_left_sorted sorted_map_as_key filter_map o_def as_key_less)


lemma get_confusion_matrix_tally:
  assumes "consistent self"
  shows "get_confusion_matrix self t = Inr (tally (data self) t)"
proof -
  let ?d = "data self"
  have srt: "sorted ?d"
    and pos: "total_positives self = count_if snd ?d"
    and neg: "total_negatives self = count_if (\<lambda>p. \<not> snd p) ?d"
    using assms by (simp_all add: consistent_def)
  have idx: "bisect_left (map as_key ?d) (t, False) = length (filter (below t) ?d)"
    using srt by (rule bisect_left_data)
  have tk: "take (length (filter (below t) ?d)) ?d = filter (below t) ?d"
    and dr: "drop (length (filter (below t) ?d)) ?d = filter (\<lambda>p. \<not> below t p) ?d"
    using sorted_take_filter [OF srt, of "below t"] below_mono by blast+
  have p: "count_if snd ?d
      = count_if (\<lambda>p. snd p \<and> below t p) ?d + count_if (\<lambda>p. snd p \<and> \<not> below t p) ?d"
    by (rule count_if_split)
  have n: "count_if (\<lambda>p. \<not> snd p) ?d
      = count_if (\<lambda>p. \<not> snd p \<and> below t p) ?d + count_if (\<lambda>p. \<not> snd p \<and> \<not> below t p) ?d"
    by (rule count_if_split)
  have c: "(\<lambda>p. below t p \<and> snd p) = (\<lambda>p. snd p \<and> below t p)"
    "(\<lambda>p. below t p \<and> \<not> snd p) = (\<lambda>p. \<not> snd p \<and> below t p)"
    "(\<lambda>p. \<not> below t p \<and> snd p) = (\<lambda>p. snd p \<and> \<not> below t p)"
    "(\<lambda>p. \<not> below t p \<and> \<not> snd p) = (\<lambda>p. \<not> snd p \<and> \<not> below t p)"
    by auto
  show ?thesis
  proof (cases "length (filter (below t) ?d) \<le> length ?d div 2")
    case True
    then show ?thesis
      unfolding get_confusion_matrix_def Let_def idx tk
      by (simp add: fold_bump_0 put_def BinaryConfusionMatrix_grid tally_def
          count_if_filter c pos neg p n)
  next
    case False
    then show ?thesis
      unfolding get_confusion_matrix_def Let_def idx dr
      by (simp add: fold_bump_1 put_def BinaryConfusionMatrix_grid tally_def
          count_if_filter c pos neg p n)
  qed
qed

lemma sum_list_indicator:
  "sum_list (map (\<lambda>point. if P point then 1 else 0) pts) = count_if P pts"
  by (induction pts) auto

lemma consistent_BinaryClassifierData: "consistent (BinaryClassifierData pts)"
proof -
  have "count_if snd (sort (map normalize_point pts)) = count_if (\<lambda>p. snd p > 0) pts"
    by (simp add: count_if_sort count_if_map normalize_point_def)
  moreover have "int (length pts) - count_if (\<lambda>p. snd p > 0) pts
      = count_if (\<lambda>p. \<not> snd p) (sort (map normalize_point pts))"
    using count_if_compl [of "\<lambda>p. snd p > 0" pts]
    by (simp add: count_if_sort count_if_map normalize_point_def)
  ultimately show ?thesis
    by (simp add: consistent_def BinaryClassifierData_def Let_def sum_list_indicator)
qed

lemma tally_BinaryClassifierData:
  "tally (data (BinaryClassifierData pts)) t = expected_matrix pts t"
  by (simp add: tally_def expected_matrix_def BinaryClassifierData_def Let_def
      count_if_sort count_if_map normalize_point_def below_def not_less)

lemma example_02:
  "get_confusion_matrix (BinaryClassifierData example_points) (Fin 0.2)
     = Inr \<lparr>tp = 5, fp = 3, tn = 1, fn = 0\<rparr>"
  by code_simp

lemma example_075:
  "get_confusion_matrix (BinaryClassifierData example_points) (Fin 0.75)
     = Inr \<lparr>tp = 2, fp = 0, tn = 4, fn = 3\<rparr>"
  by code_simp

text \<open>
  C1. For every dataset and every threshold \<open>t\<close> (a real, or plus infinity),
  \<^verbatim>\<open>get_confusion_matrix(t)\<close> returns the matrix whose tp counts the positive-labelled
  points with score \<open>\<ge> t\<close>, fp the negative-labelled points with score \<open>\<ge> t\<close>, fn the
  positive-labelled points with score \<open>< t\<close> and tn the negative-labelled points with
  score \<open>< t\<close>. On the dataset of the docstring, threshold 0.2 gives tp = 5, fp = 3,
  fn = 0, tn = 1 and threshold 0.75 gives tp = 2, fp = 0, fn = 3, tn = 4.
\<close>

theorem get_confusion_matrix_counts:
  "get_confusion_matrix (BinaryClassifierData pts) t = Inr (expected_matrix pts t)
   \<and> get_confusion_matrix (BinaryClassifierData example_points) (Fin 0.2)
       = Inr \<lparr>tp = 5, fp = 3, tn = 1, fn = 0\<rparr>
   \<and> get_confusion_matrix (BinaryClassifierData example_points) (Fin 0.75)
       = Inr \<lparr>tp = 2, fp = 0, tn = 4, fn = 3\<rparr>"
  using get_confusion_matrix_tally [OF consistent_BinaryClassifierData, of pts t]
  by (simp only: tally_BinaryClassifierData example_02 example_075 simp_thms)

section \<open>The sweep: totals and monotonicity\<close>

lemma count_if_nonneg [simp]: "0 \<le> count_if P xs"
  by (simp add: count_if_def)

lemma moved_Nil [simp]: "moved [] m = m"
  by (simp add: moved_def)

lemma moved_Cons:
  "moved (p # rows) m =
     moved rows (if snd p then m\<lparr>tp := tp m - 1, fn := fn m + 1\<rparr>
                 else m\<lparr>tn := tn m + 1, fp := fp m - 1\<rparr>)"
  by (simp add: moved_def)

text \<open>The inner loop moves the longest run of rows below the threshold, from the cursor on.\<close>

lemma sweep_rows_takeWhile:
  "sweep_rows d t i m =
     (i + length (takeWhile (below t) (drop i d)), moved (takeWhile (below t) (drop i d)) m)"
proof (induction d t i m rule: sweep_rows.induct)
  case (1 d t i m)
  show ?case
  proof (cases "i < length d")
    case False
    then show ?thesis
      by (simp add: sweep_rows.simps [of d t i m])
  next
    case True
    then have dr: "drop i d = d ! i # drop (i + 1) d"
      by (simp add: Cons_nth_drop_Suc)
    show ?thesis
    proof (cases "below t (d ! i)")
      case False
      then have "t \<le> Fin (fst (d ! i))"
        by (simp add: below_def)
      with True False show ?thesis
        by (simp add: sweep_rows.simps [of d t i m] dr)
    next
      case bel: True
      then have nle: "\<not> t \<le> Fin (fst (d ! i))"
        by (simp add: below_def)
      show ?thesis
      proof (cases "snd (d ! i)")
        case True
        with "1.IH"(1) [OF \<open>i < length d\<close> nle True] \<open>i < length d\<close> nle bel show ?thesis
          by (simp add: sweep_rows.simps [of d t i m] dr moved_Cons)
      next
        case False
        with "1.IH"(2) [OF \<open>i < length d\<close> nle False] \<open>i < length d\<close> nle bel show ?thesis
          by (simp add: sweep_rows.simps [of d t i m] dr moved_Cons)
      qed
    qed
  qed
qed

lemma total_moved [simp]: "total (moved rows m) = total m"
  by (simp add: total_def moved_def)

lemma tp_moved_le: "tp (moved rows m) \<le> tp m"
  by (simp add: moved_def)

lemma tn_moved_ge: "tn m \<le> tn (moved rows m)"
  by (simp add: moved_def)

text \<open>The outer loop with the copy on yield evaluated.\<close>

lemma sweep_Cons:
  "sweep self (t # ts) i m =
     ((t, snd (sweep_rows (data self) t i m))
        # fst (sweep self ts (fst (sweep_rows (data self) t i m))
                (snd (sweep_rows (data self) t i m))),
      snd (sweep self ts (fst (sweep_rows (data self) t i m))
             (snd (sweep_rows (data self) t i m))))"
  by (simp add: BinaryConfusionMatrix_copy split: prod.splits)

lemma sweep_no_error: "snd (sweep self ts i m) = None"
  by (induction ts arbitrary: i m) (simp_all add: sweep_Cons del: sweep.simps(2))

lemma sweep_thresholds: "map fst (fst (sweep self ts i m)) = ts"
  by (induction ts arbitrary: i m) (simp_all add: sweep_Cons del: sweep.simps(2))

lemma sweep_total:
  "(t, m') \<in> set (fst (sweep self ts i m)) \<Longrightarrow> total m' = total m"
proof (induction ts arbitrary: i m)
  case Nil
  then show ?case by simp
next
  case (Cons a ts)
  obtain i1 m1 where r: "sweep_rows (data self) a i m = (i1, m1)"
    by (cases "sweep_rows (data self) a i m")
  then have m1: "total m1 = total m"
    by (auto simp: sweep_rows_takeWhile)
  obtain ys err where s: "sweep self ts i1 m1 = (ys, err)"
    by (cases "sweep self ts i1 m1")
  from Cons.prems have "(t, m') = (a, m1) \<or> (t, m') \<in> set ys"
    by (simp add: sweep_Cons r s del: sweep.simps(2))
  then show ?case
  proof
    assume "(t, m') = (a, m1)"
    with m1 show ?thesis by simp
  next
    assume "(t, m') \<in> set ys"
    then have "(t, m') \<in> set (fst (sweep self ts i1 m1))"
      by (simp add: s)
    then have "total m' = total m1"
      by (rule Cons.IH)
    with m1 show ?thesis by simp
  qed
qed

lemma later_trans: "later a b \<Longrightarrow> later b c \<Longrightarrow> later a c"
  by (auto simp: later_def)

lemma sweep_later:
  "sorted (t0 # ts) \<Longrightarrow> sorted_wrt later ((t0, m) # fst (sweep self ts i m))"
proof (induction ts arbitrary: t0 i m)
  case Nil
  then show ?case by simp
next
  case (Cons a ts)
  obtain i1 m1 where r: "sweep_rows (data self) a i m = (i1, m1)"
    by (cases "sweep_rows (data self) a i m")
  then have m1: "tp m1 \<le> tp m" "tn m \<le> tn m1"
    by (auto simp: sweep_rows_takeWhile tp_moved_le tn_moved_ge)
  obtain ys err where s: "sweep self ts i1 m1 = (ys, err)"
    by (cases "sweep self ts i1 m1")
  from Cons.prems have "sorted (a # ts)" and le: "t0 \<le> a"
    by simp_all
  then have "sorted_wrt later ((a, m1) # fst (sweep self ts i1 m1))"
    by (intro Cons.IH)
  then have ih: "sorted_wrt later ((a, m1) # ys)"
    by (simp add: s)
  have first: "later (t0, m) (a, m1)"
    using le m1 by (simp add: later_def)
  have "\<forall>y\<in>set ys. later (t0, m) y"
    using ih first by (auto intro: later_trans)
  with ih first show ?case
    by (simp add: sweep_Cons r s del: sweep.simps(2))
qed


lemma iter_confusion_matrices_unfold:
  assumes "consistent self" and "len self \<noteq> 0" and "resolve_thresholds self arg = t0 # ts"
  shows "iter_confusion_matrices self arg =
     ((t0, tally (data self) t0)
        # fst (sweep self (ts @ [PInf]) 0 (tally (data self) t0)), None)"
  using assms(2,3)
  by (simp add: iter_confusion_matrices_def get_confusion_matrix_tally [OF assms(1)]
      sweep_no_error case_prod_beta)

lemma iter_confusion_matrices_empty:
  "len self = 0 \<or> resolve_thresholds self arg = [] \<Longrightarrow> iter_confusion_matrices self arg = ([], None)"
  by (auto simp: iter_confusion_matrices_def)

lemma total_tally: "total (tally d t) = int (length d)"
proof -
  have "count_if snd d = count_if (\<lambda>p. snd p \<and> below t p) d + count_if (\<lambda>p. snd p \<and> \<not> below t p) d"
    by (rule count_if_split)
  moreover have "count_if (\<lambda>p. \<not> snd p) d
      = count_if (\<lambda>p. \<not> snd p \<and> below t p) d + count_if (\<lambda>p. \<not> snd p \<and> \<not> below t p) d"
    by (rule count_if_split)
  moreover have "count_if snd d + count_if (\<lambda>p. \<not> snd p) d = int (length d)"
    by (rule count_if_compl)
  ultimately show ?thesis
    by (simp add: total_def tally_def)
qed

lemma length_data_BinaryClassifierData [simp]:
  "length (data (BinaryClassifierData pts)) = length pts"
  by (simp add: BinaryClassifierData_def Let_def)

lemma iter_confusion_matrices_total:
  assumes "consistent self" and "(t, m) \<in> set (fst (iter_confusion_matrices self arg))"
  shows "total m = int (length (data self))"
proof (cases "len self = 0 \<or> resolve_thresholds self arg = []")
  case True
  with assms(2) show ?thesis
    by (simp add: iter_confusion_matrices_empty)
next
  case False
  then obtain t0 ts where r: "resolve_thresholds self arg = t0 # ts" and n: "len self \<noteq> 0"
    by (cases "resolve_thresholds self arg") auto
  let ?m0 = "tally (data self) t0"
  from assms(2) have "(t, m) = (t0, ?m0) \<or> (t, m) \<in> set (fst (sweep self (ts @ [PInf]) 0 ?m0))"
    by (simp add: iter_confusion_matrices_unfold [OF assms(1) n r])
  then show ?thesis
  proof
    assume "(t, m) = (t0, ?m0)"
    then show ?thesis by (simp add: total_tally)
  next
    assume "(t, m) \<in> set (fst (sweep self (ts @ [PInf]) 0 ?m0))"
    then have "total m = total ?m0" by (rule sweep_total)
    then show ?thesis by (simp add: total_tally)
  qed
qed

text \<open>
  C3. For every dataset of size N, the matrix returned by \<^verbatim>\<open>get_confusion_matrix\<close> at
  any threshold and every matrix yielded by \<^verbatim>\<open>iter_confusion_matrices\<close>, for any
  thresholds argument, satisfy tp + fp + tn + fn = N.
\<close>

theorem totals_constant:
  "(\<exists>m. get_confusion_matrix (BinaryClassifierData pts) t = Inr m \<and> total m = int (length pts))
   \<and> (\<forall>(t', m') \<in> set (fst (iter_confusion_matrices (BinaryClassifierData pts) arg)).
        total m' = int (length pts))"
proof -
  have c: "consistent (BinaryClassifierData pts)"
    by (rule consistent_BinaryClassifierData)
  have "get_confusion_matrix (BinaryClassifierData pts) t
      = Inr (tally (data (BinaryClassifierData pts)) t)"
    using c by (rule get_confusion_matrix_tally)
  moreover have "total (tally (data (BinaryClassifierData pts)) t) = int (length pts)"
    by (simp add: total_tally)
  ultimately have 1: "\<exists>m. get_confusion_matrix (BinaryClassifierData pts) t = Inr m
      \<and> total m = int (length pts)"
    by blast
  have 2: "\<forall>(t', m') \<in> set (fst (iter_confusion_matrices (BinaryClassifierData pts) arg)).
      total m' = int (length pts)"
    using iter_confusion_matrices_total [OF c] by fastforce
  from 1 2 show ?thesis ..
qed

lemma less_eq_PInf [simp]: "t \<le> PInf"
  by (cases t) simp_all

lemma sorted_resolve_thresholds: "sorted (resolve_thresholds self arg @ [PInf])"
  by (simp add: resolve_thresholds_def Let_def sorted_append)

lemma sorted_wrt_later_members:
  "sorted_wrt later ys \<Longrightarrow> a \<in> set ys \<Longrightarrow> b \<in> set ys \<Longrightarrow> fst a < fst b
   \<Longrightarrow> tp (snd b) \<le> tp (snd a) \<and> tn (snd a) \<le> tn (snd b)"
proof (induction ys)
  case Nil
  then show ?case by simp
next
  case (Cons y ys)
  from Cons.prems(1) have all: "\<forall>z\<in>set ys. later y z" and srt: "sorted_wrt later ys"
    by simp_all
  consider "a = y" "b = y" | "a = y" "b \<in> set ys" | "a \<in> set ys" "b = y"
    | "a \<in> set ys" "b \<in> set ys"
    using Cons.prems(2,3) by auto
  then show ?case
  proof cases
    case 1
    with Cons.prems(4) show ?thesis by simp
  next
    case 2
    with all have "later a b" by simp
    then show ?thesis by (simp add: later_def)
  next
    case 3
    with all have "later b a" by simp
    with Cons.prems(4) show ?thesis by (auto simp: later_def)
  next
    case 4
    with srt Cons.prems(4) show ?thesis by (intro Cons.IH)
  qed
qed

lemma iter_confusion_matrices_later:
  assumes "consistent self"
  shows "sorted_wrt later (fst (iter_confusion_matrices self arg))"
proof (cases "len self = 0 \<or> resolve_thresholds self arg = []")
  case True
  then show ?thesis
    by (simp add: iter_confusion_matrices_empty)
next
  case False
  then obtain t0 ts where r: "resolve_thresholds self arg = t0 # ts" and n: "len self \<noteq> 0"
    by (cases "resolve_thresholds self arg") auto
  have "sorted (t0 # (ts @ [PInf]))"
    using sorted_resolve_thresholds [of self arg] by (simp add: r)
  then have "sorted_wrt later ((t0, tally (data self) t0)
      # fst (sweep self (ts @ [PInf]) 0 (tally (data self) t0)))"
    by (rule sweep_later)
  then show ?thesis
    by (simp add: iter_confusion_matrices_unfold [OF assms n r])
qed

text \<open>
  C4. Within one sweep, for any two yielded pairs such that the threshold of the second is
  strictly greater than the threshold of the first, the tp of the second is at most the tp
  of the first and the tn of the second is at least the tn of the first.
\<close>

theorem sweep_monotone:
  assumes "(t1, m1) \<in> set (fst (iter_confusion_matrices (BinaryClassifierData pts) arg))"
    and "(t2, m2) \<in> set (fst (iter_confusion_matrices (BinaryClassifierData pts) arg))"
    and "t1 < t2"
  shows "tp m2 \<le> tp m1 \<and> tn m1 \<le> tn m2"
  using sorted_wrt_later_members
    [OF iter_confusion_matrices_later [OF consistent_BinaryClassifierData] assms(1,2)] assms(3)
  by simp

lemma example_sweep:
  "fst (iter_confusion_matrices (BinaryClassifierData example_points) NoThresholds) =
     [(Fin (1 / 10), \<lparr>tp = 5, fp = 4, tn = 0, fn = 0\<rparr>),
      (Fin (1 / 5), \<lparr>tp = 5, fp = 3, tn = 1, fn = 0\<rparr>),
      (Fin (3 / 10), \<lparr>tp = 5, fp = 2, tn = 2, fn = 0\<rparr>),
      (Fin (2 / 5), \<lparr>tp = 5, fp = 1, tn = 3, fn = 0\<rparr>),
      (Fin (1 / 2), \<lparr>tp = 4, fp = 1, tn = 3, fn = 1\<rparr>),
      (Fin (3 / 5), \<lparr>tp = 4, fp = 0, tn = 4, fn = 1\<rparr>),
      (Fin (7 / 10), \<lparr>tp = 3, fp = 0, tn = 4, fn = 2\<rparr>),
      (Fin (4 / 5), \<lparr>tp = 2, fp = 0, tn = 4, fn = 3\<rparr>),
      (Fin (9 / 10), \<lparr>tp = 1, fp = 0, tn = 4, fn = 4\<rparr>),
      (PInf, \<lparr>tp = 0, fp = 0, tn = 4, fn = 5\<rparr>)]"
  by code_simp

text \<open>
  C4 on the dataset of the docstring: the pairs yielded at thresholds 2/5 and 4/5 have
  tp 5 and 2, and tn 3 and 4.
\<close>

theorem sweep_monotone_witness:
  "(Fin (2 / 5), \<lparr>tp = 5, fp = 1, tn = 3, fn = 0\<rparr>)
      \<in> set (fst (iter_confusion_matrices (BinaryClassifierData example_points) NoThresholds))
   \<and> (Fin (4 / 5), \<lparr>tp = 2, fp = 0, tn = 4, fn = 3\<rparr>)
      \<in> set (fst (iter_confusion_matrices (BinaryClassifierData example_points) NoThresholds))
   \<and> Fin (2 / 5) < Fin (4 / 5)
   \<and> tp \<lparr>tp = 2, fp = 0, tn = 4, fn = 3\<rparr> \<le> tp \<lparr>tp = 5, fp = 1, tn = 3, fn = 0\<rparr>
   \<and> tn \<lparr>tp = 5, fp = 1, tn = 3, fn = 0\<rparr> \<le> tn \<lparr>tp = 2, fp = 0, tn = 4, fn = 3\<rparr>"
proof -
  have a: "(Fin (2 / 5), \<lparr>tp = 5, fp = 1, tn = 3, fn = 0\<rparr>)
      \<in> set (fst (iter_confusion_matrices (BinaryClassifierData example_points) NoThresholds))"
    by (simp add: example_sweep)
  have b: "(Fin (4 / 5), \<lparr>tp = 2, fp = 0, tn = 4, fn = 3\<rparr>)
      \<in> set (fst (iter_confusion_matrices (BinaryClassifierData example_points) NoThresholds))"
    by (simp add: example_sweep)
  have c: "Fin (2 / 5) < Fin (4 / 5)"
    by (simp add: less_threshold_def)
  from a b c sweep_monotone [OF a b c] show ?thesis by blast
qed

text \<open>
  C3 on the dataset of the docstring (N = 9): the sweep over the scores yields at least one
  pair, and every yielded matrix and the matrix at threshold 0.2 have total 9.
\<close>

theorem totals_constant_witness:
  "fst (iter_confusion_matrices (BinaryClassifierData example_points) NoThresholds) \<noteq> []
   \<and> list_all (\<lambda>(t', m'). total m' = 9)
       (fst (iter_confusion_matrices (BinaryClassifierData example_points) NoThresholds))
   \<and> (\<exists>m. get_confusion_matrix (BinaryClassifierData example_points) (Fin 0.2) = Inr m
         \<and> total m = 9)"
proof -
  have len: "int (length example_points) = 9"
    by (simp add: example_points_def)
  have "fst (iter_confusion_matrices (BinaryClassifierData example_points) NoThresholds) \<noteq> []"
    by (simp add: example_sweep)
  with totals_constant [of example_points "Fin 0.2" NoThresholds] show ?thesis
    unfolding len by (simp add: list_all_iff)
qed

section \<open>The sweep against the single lookup\<close>

lemma sorted_takeWhile_filter:
  fixes xs :: "'a::linorder list"
  assumes "sorted xs" and "\<And>x y. x \<le> y \<Longrightarrow> P y \<Longrightarrow> P x"
  shows "takeWhile P xs = filter P xs"
  using assms(1)
proof (induction xs)
  case Nil
  show ?case by simp
next
  case (Cons x xs)
  show ?case
  proof (cases "P x")
    case True
    with Cons show ?thesis by simp
  next
    case False
    have "\<forall>y\<in>set xs. \<not> P y"
      using Cons.prems False assms(2) by auto
    then have "filter P xs = []"
      by (simp add: filter_empty_conv)
    with False show ?thesis by simp
  qed
qed

lemma below_trans: "t1 \<le> t2 \<Longrightarrow> below t1 p \<Longrightarrow> below t2 p"
  by (auto simp: below_def)

lemma count_if_grow:
  assumes "\<And>x. A x \<Longrightarrow> B x"
  shows "count_if (\<lambda>x. L x \<and> A x) xs + count_if (\<lambda>x. (\<not> A x \<and> B x) \<and> L x) xs
         = count_if (\<lambda>x. L x \<and> B x) xs"
  using assms by (induction xs) auto

lemma count_if_shrink:
  assumes "\<And>x. A x \<Longrightarrow> B x"
  shows "count_if (\<lambda>x. L x \<and> \<not> A x) xs - count_if (\<lambda>x. (\<not> A x \<and> B x) \<and> L x) xs
         = count_if (\<lambda>x. L x \<and> \<not> B x) xs"
  using assms by (induction xs) auto

lemma length_filter_grow:
  assumes "\<And>x. A x \<Longrightarrow> B x"
  shows "length (filter A xs) + length (filter (\<lambda>x. \<not> A x \<and> B x) xs) = length (filter B xs)"
  using assms by (induction xs) auto

text \<open>
  One threshold of the sweep, started with the cursor and the matrix of an earlier
  threshold, ends with the cursor and the matrix of the new one.
\<close>

lemma sweep_rows_tally:
  assumes "sorted d" and "t1 \<le> t2"
  shows "sweep_rows d t2 (length (filter (below t1) d)) (tally d t1)
         = (length (filter (below t2) d), tally d t2)"
proof -
  let ?new = "\<lambda>p. \<not> below t1 p \<and> below t2 p"
  have imp: "\<And>p. below t1 p \<Longrightarrow> below t2 p"
    using assms(2) by (rule below_trans)
  have dr: "drop (length (filter (below t1) d)) d = filter (\<lambda>p. \<not> below t1 p) d"
    using sorted_take_filter(2) [OF assms(1), of "below t1"] below_mono by blast
  have "sorted (filter (\<lambda>p. \<not> below t1 p) d)"
    using assms(1) by (rule sorted_wrt_filter)
  then have "takeWhile (below t2) (filter (\<lambda>p. \<not> below t1 p) d)
      = filter (below t2) (filter (\<lambda>p. \<not> below t1 p) d)"
    using below_mono by (intro sorted_takeWhile_filter) blast+
  then have tw: "takeWhile (below t2) (drop (length (filter (below t1) d)) d) = filter ?new d"
    by (simp add: dr)
  have cur: "length (filter (below t1) d) + length (filter ?new d) = length (filter (below t2) d)"
    using imp by (rule length_filter_grow)
  have "moved (filter ?new d) (tally d t1) = tally d t2"
    using count_if_grow [of "below t1" "below t2" snd d, OF imp]
      count_if_grow [of "below t1" "below t2" "\<lambda>p. \<not> snd p" d, OF imp]
      count_if_shrink [of "below t1" "below t2" snd d, OF imp]
      count_if_shrink [of "below t1" "below t2" "\<lambda>p. \<not> snd p" d, OF imp]
    by (simp add: moved_def tally_def count_if_filter)
  with cur show ?thesis
    by (simp add: sweep_rows_takeWhile tw)
qed

lemma sweep_tally:
  assumes "sorted (data self)"
  shows "sorted (t0 # ts)
    \<Longrightarrow> fst (sweep self ts (length (filter (below t0) (data self))) (tally (data self) t0))
        = map (\<lambda>t. (t, tally (data self) t)) ts"
proof (induction ts arbitrary: t0)
  case Nil
  show ?case by simp
next
  case (Cons t ts)
  then have "t0 \<le> t" and "sorted (t # ts)"
    by simp_all
  with Cons.IH [of t] sweep_rows_tally [OF assms, of t0 t] show ?case
    by (simp add: sweep_Cons del: sweep.simps(2))
qed

text \<open>
  When no point lies below the first threshold, the cursor 0 is the cursor of that
  threshold, and the sweep yields the tally at every threshold.
\<close>

lemma iter_confusion_matrices_tally:
  assumes "consistent self" and "len self \<noteq> 0" and "resolve_thresholds self arg = t0 # ts"
    and "filter (below t0) (data self) = []"
  shows "fst (iter_confusion_matrices self arg)
         = map (\<lambda>t. (t, tally (data self) t)) (t0 # ts @ [PInf])"
proof -
  have srt: "sorted (data self)"
    using assms(1) by (simp add: consistent_def)
  have "sorted (t0 # (ts @ [PInf]))"
    using sorted_resolve_thresholds [of self arg] by (simp add: assms(3))
  from sweep_tally [OF srt this] show ?thesis
    by (simp add: iter_confusion_matrices_unfold [OF assms(1-3)] assms(4))
qed

lemma iter_confusion_matrices_agrees:
  assumes "consistent self" and "resolve_thresholds self arg = t0 # ts"
    and "filter (below t0) (data self) = []"
    and "(t, m) \<in> set (fst (iter_confusion_matrices self arg))"
  shows "get_confusion_matrix self t = Inr m"
proof (cases "len self = 0")
  case True
  with assms(4) show ?thesis
    by (simp add: iter_confusion_matrices_empty)
next
  case False
  from assms(4) have "m = tally (data self) t"
    by (auto simp: iter_confusion_matrices_tally [OF assms(1) False assms(2,3)])
  then show ?thesis
    by (simp add: get_confusion_matrix_tally [OF assms(1)])
qed

lemma count_if_False [simp]: "count_if (\<lambda>x. False) xs = 0"
  by (simp add: count_if_def)

lemma tally_PInf:
  "tally d PInf = \<lparr>tp = 0, fp = 0, tn = count_if (\<lambda>p. \<not> snd p) d, fn = count_if snd d\<rparr>"
  by (simp add: tally_def below_def less_threshold_def)

lemma set_data_BinaryClassifierData:
  "set (data (BinaryClassifierData pts)) = normalize_point ` set pts"
  by (simp add: BinaryClassifierData_def Let_def)

lemma resolve_NoThresholds:
  "resolve_thresholds (BinaryClassifierData pts) NoThresholds
   = sort (remdups (map (\<lambda>p. Fin (fst p)) pts))"
proof (rule sorted_distinct_set_unique)
  show "set (resolve_thresholds (BinaryClassifierData pts) NoThresholds)
      = set (sort (remdups (map (\<lambda>p. Fin (fst p)) pts)))"
    by (force simp: resolve_thresholds_def set_data_BinaryClassifierData normalize_point_def
        image_iff case_prod_beta)
qed (simp_all add: resolve_thresholds_def)

text \<open>
  C5, as the code has it. With \<^verbatim>\<open>thresholds = None\<close> on a non-empty dataset, the
  thresholds of the yielded pairs are the distinct scores of the dataset in ascending
  order, followed by plus infinity: \<^verbatim>\<open>sorted(set(thresholds))\<close> is applied in the
  \<^verbatim>\<open>None\<close> case as in the integer and the explicit case.
\<close>

theorem default_thresholds_deduplicated:
  assumes "pts \<noteq> []"
  shows "map fst (fst (iter_confusion_matrices (BinaryClassifierData pts) NoThresholds))
         = sort (remdups (map (\<lambda>p. Fin (fst p)) pts)) @ [PInf]"
proof -
  let ?self = "BinaryClassifierData pts"
  have c: "consistent ?self"
    by (rule consistent_BinaryClassifierData)
  have n: "len ?self \<noteq> 0"
    using assms by (simp add: len_def)
  have "set (resolve_thresholds ?self NoThresholds) \<noteq> {}"
    using assms by (simp add: resolve_NoThresholds)
  then obtain t0 ts where r: "resolve_thresholds ?self NoThresholds = t0 # ts"
    by (cases "resolve_thresholds ?self NoThresholds") auto
  have "map fst (fst (iter_confusion_matrices ?self NoThresholds)) = t0 # ts @ [PInf]"
    by (simp add: iter_confusion_matrices_unfold [OF c n r] sweep_thresholds)
  then show ?thesis
    by (simp add: r [symmetric] resolve_NoThresholds)
qed


text \<open>
  C5 on the points (0.3, 1), (0.1, 0), (0.3, 0): the thresholds yielded are 0.1, 0.3 and
  plus infinity.
\<close>

theorem default_thresholds_deduplicated_witness:
  "[(3 / 10, 1), (1 / 10, 0), (3 / 10, 0)] \<noteq> ([] :: (real \<times> int) list)
   \<and> map fst (fst (iter_confusion_matrices
         (BinaryClassifierData [(3 / 10, 1), (1 / 10, 0), (3 / 10, 0)]) NoThresholds))
       = [Fin (1 / 10), Fin (3 / 10), PInf]"
  using default_thresholds_deduplicated [of "[(3 / 10, 1), (1 / 10, 0), (3 / 10, 0)]"]
  by simp

text \<open>
  C5 as stated fails on a dataset with the score 0.5 twice: the scores in their order of
  appearance are 0.5, 0.5, but the thresholds yielded are 0.5 (once) and plus infinity.
\<close>

theorem default_thresholds_counterexample:
  "map fst (fst (iter_confusion_matrices
       (BinaryClassifierData [(1 / 2, 0), (1 / 2, 1)]) NoThresholds))
     = [Fin (1 / 2), PInf]
   \<and> map (\<lambda>(pred, _). Fin pred) (data (BinaryClassifierData [(1 / 2, 0), (1 / 2, 1)]))
     = [Fin (1 / 2), Fin (1 / 2)]"
  by code_simp

text \<open>
  C2 fails on the code. On the points (0.1, 1), (0.6, 1) with the explicit threshold 0.5,
  the pair yielded at plus infinity has tp = -1 and fn = 3, whereas
  \<^verbatim>\<open>get_confusion_matrix\<close> at plus infinity gives tp = 0 and fn = 2: the cursor
  \<^verbatim>\<open>row_idx\<close> starts at 0, so the point below the first threshold, already counted
  as a false negative in the first matrix, is moved a second time.
\<close>

theorem sweep_double_counts:
  "fst (iter_confusion_matrices (BinaryClassifierData [(1 / 10, 1), (3 / 5, 1)])
         (Thresholds [Fin (1 / 2)]))
     = [(Fin (1 / 2), \<lparr>tp = 1, fp = 0, tn = 0, fn = 1\<rparr>),
        (PInf, \<lparr>tp = - 1, fp = 0, tn = 0, fn = 3\<rparr>)]
   \<and> get_confusion_matrix (BinaryClassifierData [(1 / 10, 1), (3 / 5, 1)]) PInf
     = Inr \<lparr>tp = 0, fp = 0, tn = 0, fn = 2\<rparr>"
  by code_simp

lemma no_point_below:
  assumes "\<forall>p\<in>set pts. t0 \<le> Fin (fst p)"
  shows "filter (below t0) (data (BinaryClassifierData pts)) = []"
  using assms
  by (auto simp: filter_empty_conv set_data_BinaryClassifierData normalize_point_def below_def)

text \<open>
  C7, as the code has it by design. For a non-empty dataset and a thresholds argument that
  is \<^verbatim>\<open>None\<close>, or that resolves to a non-empty list whose smallest threshold is at most
  every score, the sweep yields at least one pair and its last pair has threshold plus
  infinity and the matrix tp = 0, fp = 0, tn = total_negatives, fn = total_positives.
\<close>

theorem sweep_ends_all_negative:
  assumes "pts \<noteq> []"
    and "arg = NoThresholds
         \<or> (resolve_thresholds (BinaryClassifierData pts) arg \<noteq> []
            \<and> (\<forall>p\<in>set pts. hd (resolve_thresholds (BinaryClassifierData pts) arg) \<le> Fin (fst p)))"
  shows "fst (iter_confusion_matrices (BinaryClassifierData pts) arg) \<noteq> []
     \<and> last (fst (iter_confusion_matrices (BinaryClassifierData pts) arg))
       = (PInf, \<lparr>tp = 0, fp = 0,
                 tn = total_negatives (BinaryClassifierData pts),
                 fn = total_positives (BinaryClassifierData pts)\<rparr>)"
proof -
  let ?self = "BinaryClassifierData pts"
  let ?r = "resolve_thresholds ?self arg"
  have c: "consistent ?self"
    by (rule consistent_BinaryClassifierData)
  have n: "len ?self \<noteq> 0"
    using assms(1) by (simp add: len_def)
  have "?r \<noteq> [] \<and> (\<forall>p\<in>set pts. hd ?r \<le> Fin (fst p))"
  proof (cases "arg = NoThresholds")
    case False
    with assms(2) show ?thesis by simp
  next
    case True
    have s: "set ?r = (\<lambda>p. Fin (fst p)) ` set pts"
      by (simp add: True resolve_NoThresholds)
    with assms(1) have ne: "?r \<noteq> []"
      by auto
    have "sorted ?r"
      by (simp add: resolve_thresholds_def)
    with ne have "\<forall>t\<in>set ?r. hd ?r \<le> t"
      by (cases ?r) auto
    with s ne show ?thesis
      by auto
  qed
  then obtain t0 ts where r: "?r = t0 # ts" and low: "\<forall>p\<in>set pts. t0 \<le> Fin (fst p)"
    by (cases ?r) auto
  have "fst (iter_confusion_matrices ?self arg)
      = map (\<lambda>t. (t, tally (data ?self) t)) (t0 # ts @ [PInf])"
    using c n r no_point_below [OF low] by (rule iter_confusion_matrices_tally)
  moreover have "tally (data ?self) PInf
      = \<lparr>tp = 0, fp = 0, tn = total_negatives ?self, fn = total_positives ?self\<rparr>"
    using c by (simp add: tally_PInf consistent_def)
  ultimately show ?thesis
    by (simp add: last_map)
qed

lemma example_Count_2:
  "resolve_thresholds (BinaryClassifierData example_points) (Count 2) = [Fin 0, Fin (1 / 2)]"
  by code_simp

lemma example_totals:
  "total_negatives (BinaryClassifierData example_points) = 4"
  "total_positives (BinaryClassifierData example_points) = 5"
  by code_simp+

text \<open>
  C7 on the dataset of the docstring with \<^verbatim>\<open>thresholds = 2\<close>: the thresholds are 0 and
  1/2, no score is below 0, and the last pair is plus infinity with tn = 4 and fn = 5.
\<close>

theorem sweep_ends_all_negative_witness:
  "example_points \<noteq> []
   \<and> resolve_thresholds (BinaryClassifierData example_points) (Count 2) = [Fin 0, Fin (1 / 2)]
   \<and> list_all (\<lambda>p. Fin 0 \<le> Fin (fst p)) example_points
   \<and> fst (iter_confusion_matrices (BinaryClassifierData example_points) (Count 2)) \<noteq> []
   \<and> last (fst (iter_confusion_matrices (BinaryClassifierData example_points) (Count 2)))
       = (PInf, \<lparr>tp = 0, fp = 0, tn = 4, fn = 5\<rparr>)"
proof -
  have ne: "example_points \<noteq> []"
    by (simp add: example_points_def)
  have low: "\<forall>p\<in>set example_points. Fin 0 \<le> Fin (fst p)"
    by (simp add: example_points_def)
  from sweep_ends_all_negative [of example_points "Count 2"] ne low show ?thesis
    by (simp add: example_Count_2 example_totals list_all_iff)
qed

text \<open>
  C7 as stated fails on a dataset of one point when the thresholds argument is an empty
  collection or the integer 0: the generator returns at \<^verbatim>\<open>if not thresholds\<close> and
  yields no pair.
\<close>

theorem no_thresholds_counterexample:
  "len (BinaryClassifierData [(1 / 2, 1)]) = 1
   \<and> iter_confusion_matrices (BinaryClassifierData [(1 / 2, 1)]) (Thresholds []) = ([], None)
   \<and> iter_confusion_matrices (BinaryClassifierData [(1 / 2, 1)]) (Count 0) = ([], None)"
  by code_simp

section \<open>Which yielded matrices are copies\<close>

lemma sweep_st_Cons:
  "sweep_st self (t # ts) i result h =
     (let r = sweep_rows (data self) t i (h ! result);
          h2 = h[result := snd r] @ [h[result := snd r] ! result];
          s = sweep_st self ts (fst r) result h2
      in ((t, length h, h2) # fst s, snd s))"
  by (simp add: BinaryConfusionMatrix_copy alloc_def Let_def split: prod.splits)

text \<open>Read at the moment of each yield, the sweep on the store is the sweep on values.\<close>

lemma sweep_st_at_yield:
  "result < length h \<Longrightarrow>
   map at_yield (fst (sweep_st self ts i result h)) = fst (sweep self ts i (h ! result))
   \<and> snd (sweep_st self ts i result h) = snd (sweep self ts i (h ! result))"
proof (induction ts arbitrary: i h)
  case Nil
  show ?case by simp
next
  case (Cons t ts)
  let ?r = "sweep_rows (data self) t i (h ! result)"
  let ?h2 = "h[result := snd ?r] @ [h[result := snd ?r] ! result]"
  from Cons.prems have lt: "result < length ?h2" and rd: "?h2 ! result = snd ?r"
    by (simp_all add: nth_append)
  from Cons.IH [OF lt, of "fst ?r"] rd Cons.prems show ?case
    by (simp add: sweep_st_Cons sweep_Cons Let_def at_yield_def nth_append
        del: sweep.simps(2) sweep_st.simps(2))
qed

lemma iter_confusion_matrices_st_at_yield:
  "map at_yield (fst (iter_confusion_matrices_st self arg h))
     = fst (iter_confusion_matrices self arg)
   \<and> snd (iter_confusion_matrices_st self arg h) = snd (iter_confusion_matrices self arg)"
proof -
  have "map at_yield (fst (sweep_st self ts 0 (length h) (h @ [m])))
          = fst (sweep self ts 0 m)
        \<and> snd (sweep_st self ts 0 (length h) (h @ [m])) = snd (sweep self ts 0 m)"
    for ts m
    using sweep_st_at_yield [of "length h" "h @ [m]" self ts 0] by simp
  then show ?thesis
    by (simp add: iter_confusion_matrices_st_def iter_confusion_matrices_def alloc_def Let_def
        at_yield_def case_prod_beta split: list.splits sum.splits)
qed

text \<open>
  Every object yielded by the loop is new, and no later step of the sweep writes to an
  object other than the running matrix.
\<close>

lemma sweep_st_frame:
  "result < length h \<Longrightarrow> (t, r, h') \<in> set (fst (sweep_st self ts i result h))
   \<Longrightarrow> length h \<le> r \<and> r < length h' \<and> (\<forall>k<length h. k \<noteq> result \<longrightarrow> h' ! k = h ! k)"
proof (induction ts arbitrary: i h)
  case Nil
  then show ?case by simp
next
  case (Cons a ts)
  let ?r = "sweep_rows (data self) a i (h ! result)"
  let ?h2 = "h[result := snd ?r] @ [h[result := snd ?r] ! result]"
  have lt: "result < length ?h2"
    using Cons.prems(1) by simp
  have old: "\<forall>k<length h. k \<noteq> result \<longrightarrow> ?h2 ! k = h ! k"
    by (simp add: nth_append)
  from Cons.prems(2)
  have "(t, r, h') = (a, length h, ?h2) \<or> (t, r, h') \<in> set (fst (sweep_st self ts (fst ?r) result ?h2))"
    by (simp add: sweep_st_Cons Let_def del: sweep_st.simps(2))
  then show ?case
  proof
    assume "(t, r, h') = (a, length h, ?h2)"
    with old show ?thesis by simp
  next
    assume "(t, r, h') \<in> set (fst (sweep_st self ts (fst ?r) result ?h2))"
    from Cons.IH [OF lt this]
    have "length ?h2 \<le> r" "r < length h'" "\<forall>k<length ?h2. k \<noteq> result \<longrightarrow> h' ! k = ?h2 ! k"
      by simp_all
    with old show ?thesis
      by (auto simp: nth_append)
  qed
qed

lemma sweep_st_kept:
  "result < length h \<Longrightarrow> sorted_wrt kept (fst (sweep_st self ts i result h))"
proof (induction ts arbitrary: i h)
  case Nil
  show ?case by simp
next
  case (Cons a ts)
  let ?r = "sweep_rows (data self) a i (h ! result)"
  let ?h2 = "h[result := snd ?r] @ [h[result := snd ?r] ! result]"
  have lt: "result < length ?h2"
    using Cons.prems by simp
  have "kept (a, length h, ?h2) y" if "y \<in> set (fst (sweep_st self ts (fst ?r) result ?h2))" for y
  proof -
    obtain t r h' where y: "y = (t, r, h')"
      by (cases y)
    from sweep_st_frame [OF lt that [unfolded y]]
    have "\<forall>k<length ?h2. k \<noteq> result \<longrightarrow> h' ! k = ?h2 ! k"
      by simp
    moreover have "length h < length ?h2" "length h \<noteq> result"
      using Cons.prems by simp_all
    ultimately have "h' ! length h = ?h2 ! length h"
      by blast
    then show ?thesis
      by (simp add: kept_def y)
  qed
  with Cons.IH [OF lt, of "fst ?r"] show ?case
    by (simp add: sweep_st_Cons Let_def del: sweep_st.simps(2))
qed

lemma kept_last:
  "sorted_wrt kept ys \<Longrightarrow> y \<in> set ys \<Longrightarrow> final_store ys ! fst (snd y) = snd (snd y) ! fst (snd y)"
proof (induction ys)
  case Nil
  then show ?case by simp
next
  case (Cons x ys)
  show ?case
  proof (cases "ys = []")
    case True
    with Cons.prems show ?thesis
      by (simp add: final_store_def)
  next
    case False
    then have fs: "final_store (x # ys) = final_store ys" and l: "last ys \<in> set ys"
      by (simp_all add: final_store_def)
    from Cons.prems(2) have "y = x \<or> y \<in> set ys"
      by simp
    then show ?thesis
    proof
      assume "y = x"
      with Cons.prems(1) l have "kept y (last ys)"
        by simp
      then show ?thesis
        unfolding fs by (simp add: kept_def final_store_def)
    next
      assume "y \<in> set ys"
      with Cons.prems(1) Cons.IH show ?thesis
        by (simp add: fs)
    qed
  qed
qed

text \<open>
  Every pair but the first holds a copy: once the generator is exhausted, the object still
  has the value it had when it was yielded.
\<close>

lemma later_yields_are_snapshots:
  assumes "y \<in> set (tl (fst (iter_confusion_matrices_st self arg h)))"
  shows "final_store (fst (iter_confusion_matrices_st self arg h)) ! fst (snd y)
         = snd (snd y) ! fst (snd y)"
proof -
  let ?ys = "fst (iter_confusion_matrices_st self arg h)"
  from assms have ne: "tl ?ys \<noteq> []"
    by auto
  have "\<exists>ts i m. tl ?ys = fst (sweep_st self ts i (length h) (h @ [m]))"
    using ne
    by (auto simp: iter_confusion_matrices_st_def alloc_def Let_def case_prod_beta
        split: list.splits sum.splits if_splits)
  then obtain ts i m where tl: "tl ?ys = fst (sweep_st self ts i (length h) (h @ [m]))"
    by blast
  have "sorted_wrt kept (tl ?ys)"
    unfolding tl by (rule sweep_st_kept) simp
  from kept_last [OF this assms] have "final_store (tl ?ys) ! fst (snd y) = snd (snd y) ! fst (snd y)" .
  moreover have "final_store ?ys = final_store (tl ?ys)"
    using ne by (cases ?ys) (simp_all add: final_store_def)
  ultimately show ?thesis
    by simp
qed

text \<open>
  C9 fails on the code for the first pair. On the points (0.1, 0), (0.2, 1) with
  \<^verbatim>\<open>thresholds = None\<close> the generator yields the references 0, 1, 2, whose matrices at
  the moment of the yield have tp, fp, tn, fn = 1, 1, 0, 0, then 1, 0, 1, 0, then
  0, 0, 1, 1. Once the generator is exhausted, reference 0 holds 0, 0, 1, 1: the first
  pair was the running matrix itself (\<^verbatim>\<open>yield threshold, result\<close>), and the loop went
  on assigning to it. References 1 and 2 are unchanged.
\<close>

theorem first_yield_is_not_a_snapshot:
  "map (\<lambda>y. (fst y, fst (snd y), snd (snd y) ! fst (snd y)))
       (fst (iter_confusion_matrices_st (BinaryClassifierData [(1 / 10, 0), (1 / 5, 1)])
              NoThresholds []))
     = [(Fin (1 / 10), 0, \<lparr>tp = 1, fp = 1, tn = 0, fn = 0\<rparr>),
        (Fin (1 / 5), 1, \<lparr>tp = 1, fp = 0, tn = 1, fn = 0\<rparr>),
        (PInf, 2, \<lparr>tp = 0, fp = 0, tn = 1, fn = 1\<rparr>)]
   \<and> final_store (fst (iter_confusion_matrices_st
         (BinaryClassifierData [(1 / 10, 0), (1 / 5, 1)]) NoThresholds []))
     = [\<lparr>tp = 0, fp = 0, tn = 1, fn = 1\<rparr>,
        \<lparr>tp = 1, fp = 0, tn = 1, fn = 0\<rparr>,
        \<lparr>tp = 0, fp = 0, tn = 1, fn = 1\<rparr>]"
  by code_simp

end
